theory Spec2Isabelle
  imports Main "HOL-Library.AList"
begin

section \<open>Python values and the operations the bot applies to them\<close>

text \<open>
  The analysis object handed to \<^verbatim>\<open>coerce_to_buy_sell\<close> is dynamically typed. Its
  attributes are read with \<^verbatim>\<open>.get\<close>, \<^verbatim>\<open>or\<close>, \<^verbatim>\<open>.upper()\<close>, \<^verbatim>\<open>.values()\<close> and
  \<^verbatim>\<open>str\<close>, each of which may raise on a value of the wrong shape. The values are
  modelled by a datatype, the exceptions by the left summand of a sum type.
  A dictionary is an association list whose first entry for a key is the one that counts.
  Texts are lists of 8-bit characters; \<^verbatim>\<open>upper\<close> is modelled on the ASCII letters
  and leaves every other character as it is.
\<close>

datatype pyval =
    PNone
  | PBool bool
  | PInt int
  | PStr string
  | PDict "(string \<times> pyval) list"

datatype exn =
    AttributeError
  | KeyError
  | AdapterFailure string

definition truthy :: "pyval \<Rightarrow> bool" where
  "truthy v = (case v of
       PNone \<Rightarrow> False
     | PBool b \<Rightarrow> b
     | PInt i \<Rightarrow> i \<noteq> 0
     | PStr s \<Rightarrow> s \<noteq> []
     | PDict kvs \<Rightarrow> kvs \<noteq> [])"

definition py_or :: "pyval \<Rightarrow> pyval \<Rightarrow> pyval" where
  "py_or a b = (if truthy a then a else b)"

definition py_getattr :: "pyval option \<Rightarrow> exn + pyval" where
  "py_getattr a = (case a of None \<Rightarrow> Inl AttributeError | Some v \<Rightarrow> Inr v)"

definition py_get :: "pyval \<Rightarrow> string \<Rightarrow> exn + pyval" where
  "py_get d k = (case d of
       PDict kvs \<Rightarrow> Inr (case map_of kvs k of None \<Rightarrow> PNone | Some v \<Rightarrow> v)
     | _ \<Rightarrow> Inl AttributeError)"

definition upper_char :: "char \<Rightarrow> char" where
  "upper_char c =
     (let n = (of_char c :: nat)
      in if 97 \<le> n \<and> n \<le> 122 then char_of (n - 32) else c)"

definition upper :: "string \<Rightarrow> string" where
  "upper s = map upper_char s"

definition py_upper :: "pyval \<Rightarrow> exn + pyval" where
  "py_upper v = (case v of PStr s \<Rightarrow> Inr (PStr (upper s)) | _ \<Rightarrow> Inl AttributeError)"

definition startswith :: "string \<Rightarrow> string \<Rightarrow> bool" where
  "startswith s p = (take (length p) s = p)"

definition py_values :: "pyval \<Rightarrow> exn + pyval list" where
  "py_values d = (case d of
       PDict kvs \<Rightarrow> Inr (map snd (AList.clearjunk kvs))
     | _ \<Rightarrow> Inl AttributeError)"

fun digits :: "nat \<Rightarrow> string" where
  "digits n =
     (if n < 10 then [char_of (48 + n)]
      else digits (n div 10) @ [char_of (48 + n mod 10)])"

definition int_str :: "int \<Rightarrow> string" where
  "int_str i = (if i < 0 then CHR ''-'' # digits (nat (- i)) else digits (nat i))"

definition join :: "string \<Rightarrow> string list \<Rightarrow> string" where
  "join sep xs = (case xs of [] \<Rightarrow> [] | y # ys \<Rightarrow> y @ concat (map (\<lambda>z. sep @ z) ys))"

text \<open>
  \<^verbatim>\<open>repr\<close>: a text is shown between single quotes (quotes and control characters inside
  it are not escaped in the model), a dictionary between braces.
\<close>

fun py_repr :: "pyval \<Rightarrow> string" where
  "py_repr PNone = ''None''"
| "py_repr (PBool b) = (if b then ''True'' else ''False'')"
| "py_repr (PInt i) = int_str i"
| "py_repr (PStr s) = [CHR 0x27] @ s @ [CHR 0x27]"
| "py_repr (PDict kvs) =
     ''{'' @ join '', '' (map (\<lambda>(k, v). [CHR 0x27] @ k @ [CHR 0x27] @ '': '' @ py_repr v) kvs) @ ''}''"

definition py_str :: "pyval \<Rightarrow> string" where
  "py_str v = (case v of PStr s \<Rightarrow> s | _ \<Rightarrow> py_repr v)"

definition random_choice :: "nat \<Rightarrow> 'a list \<Rightarrow> 'a" where
  "random_choice r xs = xs ! (r mod length xs)"

section \<open>The signal coercion cascade\<close>

text \<open>
  An analysis object has the attributes \<^verbatim>\<open>summary\<close>, \<^verbatim>\<open>moving_averages\<close> and
  \<^verbatim>\<open>oscillators\<close>; \<open>None\<close> stands for an attribute the object does not have.
\<close>

record analysis =
  summary :: "pyval option"
  moving_averages :: "pyval option"
  oscillators :: "pyval option"

text \<open>The expression \<^verbatim>\<open>(obj.get("RECOMMENDATION") or "").upper()\<close>.\<close>

definition recommendation :: "pyval option \<Rightarrow> exn + pyval" where
  "recommendation a =
     (case py_getattr a of
        Inl e \<Rightarrow> Inl e
      | Inr d \<Rightarrow>
          (case py_get d ''RECOMMENDATION'' of
             Inl e \<Rightarrow> Inl e
           | Inr v \<Rightarrow> py_upper (py_or v (PStr ''''))))"

definition buy_cnt :: "pyval list \<Rightarrow> nat" where
  "buy_cnt vs = length (filter (\<lambda>v. startswith (upper (py_str v)) ''BUY'') vs)"

definition sell_cnt :: "pyval list \<Rightarrow> nat" where
  "sell_cnt vs = length (filter (\<lambda>v. startswith (upper (py_str v)) ''SELL'') vs)"

text \<open>
  The body of the last \<^verbatim>\<open>try\<close> block: \<open>Inr (Some s)\<close> when it returns \<open>s\<close>,
  \<open>Inr None\<close> when it falls out of the block, \<open>Inl e\<close> when it raises.
\<close>

definition ma_tally :: "analysis \<Rightarrow> exn + string option" where
  "ma_tally a =
     (case py_getattr (moving_averages a) of
        Inl e \<Rightarrow> Inl e
      | Inr d \<Rightarrow>
          (case py_get d ''COMPUTE'' of
             Inl e \<Rightarrow> Inl e
           | Inr c \<Rightarrow>
               (case py_values (py_or c (PDict [])) of
                  Inl e \<Rightarrow> Inl e
                | Inr vs \<Rightarrow>
                    if buy_cnt vs > sell_cnt vs then Inr (Some ''BUY'')
                    else if sell_cnt vs > buy_cnt vs then Inr (Some ''SELL'')
                    else Inr None)))"

definition coerce_to_buy_sell :: "nat \<Rightarrow> analysis \<Rightarrow> exn + string" where
  "coerce_to_buy_sell r a =
     (let summ = (case recommendation (summary a) of Inl e \<Rightarrow> PStr '''' | Inr v \<Rightarrow> v)
      in if summ \<in> set [PStr ''BUY'', PStr ''STRONG_BUY''] then Inr ''BUY''
         else if summ \<in> set [PStr ''SELL'', PStr ''STRONG_SELL''] then Inr ''SELL''
         else
           (case recommendation (moving_averages a) of
              Inl e \<Rightarrow> Inl e
            | Inr ma_rec \<Rightarrow>
                if ma_rec \<in> set [PStr ''BUY'', PStr ''STRONG_BUY''] then Inr ''BUY''
                else if ma_rec \<in> set [PStr ''SELL'', PStr ''STRONG_SELL''] then Inr ''SELL''
                else
                  (case recommendation (oscillators a) of
                     Inl e \<Rightarrow> Inl e
                   | Inr osc_rec \<Rightarrow>
                       if osc_rec \<in> set [PStr ''BUY'', PStr ''STRONG_BUY''] then Inr ''BUY''
                       else if osc_rec \<in> set [PStr ''SELL'', PStr ''STRONG_SELL''] then Inr ''SELL''
                       else
                         (case ma_tally a of
                            Inr (Some s) \<Rightarrow> Inr s
                          | _ \<Rightarrow> Inr (random_choice r [''BUY'', ''SELL''])))))"

section \<open>The instrument catalog\<close>

definition FOREX_PAIRS :: "string list" where
  "FOREX_PAIRS =
     [''EUR/USD'', ''GBP/USD'', ''USD/JPY'', ''USD/CHF'', ''AUD/USD'',
      ''NZD/USD'', ''USD/CAD'', ''EUR/GBP'', ''EUR/JPY'', ''GBP/JPY'',
      ''AUD/JPY'', ''CHF/JPY'', ''EUR/AUD'', ''EUR/CAD'', ''GBP/AUD'',
      ''GBP/CAD'', ''AUD/CAD'', ''NZD/JPY'', ''EUR/NZD'', ''GBP/NZD'']"

definition OTC_PAIRS :: "string list" where
  "OTC_PAIRS = map (\<lambda>p. p @ '' OTC'') FOREX_PAIRS"

definition TIMEFRAMES_FOREX :: "string list" where
  "TIMEFRAMES_FOREX = [''1m'', ''5m'', ''15m'', ''30m'', ''1h'']"

definition TIMEFRAMES_OTC :: "string list" where
  "TIMEFRAMES_OTC = [''5s'', ''10s'', ''30s'', ''1m'', ''5m'', ''15m'', ''30m'', ''1h'']"

datatype interval =
    INTERVAL_1_MINUTE
  | INTERVAL_5_MINUTES
  | INTERVAL_15_MINUTES
  | INTERVAL_30_MINUTES
  | INTERVAL_1_HOUR

definition TF_MAP :: "(string \<times> interval) list" where
  "TF_MAP =
     [(''5s'', INTERVAL_1_MINUTE),
      (''10s'', INTERVAL_1_MINUTE),
      (''30s'', INTERVAL_1_MINUTE),
      (''1m'', INTERVAL_1_MINUTE),
      (''5m'', INTERVAL_5_MINUTES),
      (''15m'', INTERVAL_15_MINUTES),
      (''30m'', INTERVAL_30_MINUTES),
      (''1h'', INTERVAL_1_HOUR)]"

text \<open>The two explanation texts, one for each signal.\<close>

datatype explanation = ImpulseUp | PressureDown

definition EXPLANATIONS :: "(string \<times> explanation) list" where
  "EXPLANATIONS = [(''BUY'', ImpulseUp), (''SELL'', PressureDown)]"

text \<open>
  \<^verbatim>\<open>str.replace\<close>: every occurrence of \<open>old\<close>, found from the left and not overlapping
  the one before, becomes \<open>new\<close>; an empty \<open>old\<close> matches before every character and
  at the end.
\<close>

function replace :: "string \<Rightarrow> string \<Rightarrow> string \<Rightarrow> string" where
  "replace s old new =
     (if old = [] then new @ concat (map (\<lambda>c. c # new) s)
      else if s = [] then []
      else if startswith s old then new @ replace (drop (length old) s) old new
      else hd s # replace (tl s) old new)"
  by pat_completeness auto
termination
  by (relation "measure (\<lambda>(s, old, new). length s)") auto

definition tv_symbol_from_pair :: "string \<Rightarrow> string" where
  "tv_symbol_from_pair pair = (let base = replace pair '' OTC'' '''' in replace base ''/'' '''')"

section \<open>The market clock\<close>

text \<open>
  The fields of \<^verbatim>\<open>datetime.now(tz)\<close> that the gate reads; \<open>weekday\<close> counts from
  Monday, which is 0.
\<close>

record datetime =
  weekday :: nat
  hour :: nat
  minute :: nat

definition is_market_closed :: "datetime \<Rightarrow> bool" where
  "is_market_closed now =
     (if weekday now \<in> set [5, 6] then True
      else if (hour now = 22 \<and> minute now \<ge> 45) \<or> (0 \<le> hour now \<and> hour now < 2) then True
      else False)"

section \<open>The analysis adapter\<close>

record ta_handler =
  symbol :: string
  screener :: string
  exchange :: string
  interval :: interval

text \<open>
  What a handler run depends on and cannot control: the clock, the answer of the analysis
  service to a request, and the number drawn by \<^verbatim>\<open>random.choice\<close>.
\<close>

record env =
  clock :: datetime
  get_analysis :: "ta_handler \<Rightarrow> exn + analysis"
  entropy :: nat

text \<open>The result is paired with the request that was sent to the analysis service.\<close>

definition analyze_with_tradingview ::
  "env \<Rightarrow> string \<Rightarrow> string \<Rightarrow> bool \<Rightarrow> ta_handler \<times> (exn + string \<times> explanation)" where
  "analyze_with_tradingview e pair timeframe is_otc =
     (let sym = tv_symbol_from_pair pair;
          itv = (case map_of TF_MAP timeframe of None \<Rightarrow> INTERVAL_5_MINUTES | Some i \<Rightarrow> i);
          handler = \<lparr>symbol = sym, screener = ''forex'', exchange = ''FX_IDC'', interval = itv\<rparr>
      in (handler,
          (case get_analysis e handler of
             Inl x \<Rightarrow> Inl x
           | Inr analysis \<Rightarrow>
               (case coerce_to_buy_sell (entropy e) analysis of
                  Inl x \<Rightarrow> Inl x
                | Inr signal \<Rightarrow>
                    (case map_of EXPLANATIONS signal of
                       None \<Rightarrow> Inl KeyError
                     | Some explain \<Rightarrow> Inr (signal, explain))))))"

section \<open>The handlers\<close>

record session =
  pair :: string
  otc :: bool

type_synonym store = "int \<rightharpoonup> session"

text \<open>
  A keyboard button is a catalog label or one of the three menu buttons; a reply is one of
  the message templates with the values it is filled with.
\<close>

datatype button = Label string | ChangePair | Back | OtcPairsButton

datatype message =
    PairPrompt string
  | NoSelection
  | MarketClosed
  | SignalText string string string explanation
  | AnalysisError string string exn

datatype event =
    ClockRead
  | AdapterCall ta_handler
  | LogException exn
  | Reply message "button list list option"

definition pair_chosen :: "store \<Rightarrow> int \<Rightarrow> string \<Rightarrow> store \<times> event list" where
  "pair_chosen user_data uid text =
     (if text \<in> set FOREX_PAIRS then
        (user_data(uid \<mapsto> \<lparr>pair = text, otc = False\<rparr>),
         [Reply (PairPrompt text)
            (Some (map (\<lambda>tf. [Label tf]) TIMEFRAMES_FOREX @ [[ChangePair, Back]]))])
      else if text \<in> set OTC_PAIRS then
        (user_data(uid \<mapsto> \<lparr>pair = text, otc = True\<rparr>),
         [Reply (PairPrompt text)
            (Some (map (\<lambda>tf. [Label tf]) TIMEFRAMES_OTC @ [[ChangePair, Back]]))])
      else (user_data, []))"

definition timeframe_chosen :: "env \<Rightarrow> store \<Rightarrow> int \<Rightarrow> string \<Rightarrow> store \<times> event list" where
  "timeframe_chosen e user_data uid tf =
     (if tf \<notin> set (TIMEFRAMES_FOREX @ TIMEFRAMES_OTC) then (user_data, [])
      else
        (case user_data uid of
           None \<Rightarrow> (user_data, [Reply NoSelection None])
         | Some sess \<Rightarrow>
             (let is_otc = otc sess;
                  gate = (if is_otc then [] else [ClockRead])
              in if \<not> is_otc \<and> is_market_closed (clock e) then
                   (user_data, gate @ [Reply MarketClosed (Some [[OtcPairsButton, Back]])])
                 else
                   (case analyze_with_tradingview e (pair sess) tf is_otc of
                      (handler, Inr (signal, short_explain)) \<Rightarrow>
                        (user_data,
                         gate @ [AdapterCall handler,
                                 Reply (SignalText (pair sess) tf signal short_explain) None])
                    | (handler, Inl x) \<Rightarrow>
                        (user_data,
                         gate @ [AdapterCall handler, LogException x,
                                 Reply (AnalysisError (pair sess) tf x) None])))))"

section \<open>Example reports, clocks and stores\<close>

text \<open>
  Concrete inputs at which the properties below are evaluated. The votes are four
  \<^verbatim>\<open>BUY\<close> against two \<^verbatim>\<open>SELL\<close>.
\<close>

definition neutral_summary :: pyval where
  "neutral_summary = PDict [(''RECOMMENDATION'', PStr ''NEUTRAL'')]"

definition votes_4_buy_2_sell :: pyval where
  "votes_4_buy_2_sell =
     PDict [(''EMA10'', PStr ''BUY''), (''SMA10'', PStr ''BUY''), (''EMA20'', PStr ''BUY''),
            (''SMA20'', PStr ''SELL''), (''EMA30'', PStr ''BUY''), (''SMA30'', PStr ''SELL'')]"

definition report_malformed_trend :: analysis where
  "report_malformed_trend =
     \<lparr>summary = Some neutral_summary,
      moving_averages = Some (PDict [(''RECOMMENDATION'', PInt 7)]),
      oscillators = Some (PDict [(''RECOMMENDATION'', PStr ''BUY'')])\<rparr>"

definition report_malformed_oscillators :: analysis where
  "report_malformed_oscillators =
     \<lparr>summary = Some neutral_summary,
      moving_averages =
        Some (PDict [(''RECOMMENDATION'', PStr ''NEUTRAL''), (''COMPUTE'', votes_4_buy_2_sell)]),
      oscillators = Some (PDict [(''RECOMMENDATION'', PInt 1)])\<rparr>"

definition report_neutral_votes :: analysis where
  "report_neutral_votes =
     \<lparr>summary = Some neutral_summary,
      moving_averages =
        Some (PDict [(''RECOMMENDATION'', PStr ''NEUTRAL''), (''COMPUTE'', votes_4_buy_2_sell)]),
      oscillators = Some (PDict [])\<rparr>"

definition report_strong_buy :: analysis where
  "report_strong_buy =
     \<lparr>summary = Some (PDict [(''RECOMMENDATION'', PStr ''STRONG_BUY'')]),
      moving_averages = None,
      oscillators = Some (PDict [(''RECOMMENDATION'', PStr ''SELL'')])\<rparr>"

definition report_sell :: analysis where
  "report_sell =
     \<lparr>summary = Some (PDict [(''RECOMMENDATION'', PStr ''SELL'')]),
      moving_averages = Some (PDict [(''RECOMMENDATION'', PStr ''BUY'')]),
      oscillators = None\<rparr>"

definition report_trend_strong_sell :: analysis where
  "report_trend_strong_sell =
     \<lparr>summary = Some neutral_summary,
      moving_averages = Some (PDict [(''RECOMMENDATION'', PStr ''STRONG_SELL'')]),
      oscillators = Some (PDict [(''RECOMMENDATION'', PStr ''BUY'')])\<rparr>"

definition report_trend_buy :: analysis where
  "report_trend_buy =
     \<lparr>summary = None,
      moving_averages = Some (PDict [(''RECOMMENDATION'', PStr ''buy'')]),
      oscillators = Some (PDict [(''RECOMMENDATION'', PStr ''STRONG_SELL'')])\<rparr>"

definition service_down :: "ta_handler \<Rightarrow> exn + analysis" where
  "service_down h = Inl (AdapterFailure ''timeout'')"

definition service_answers :: "ta_handler \<Rightarrow> exn + analysis" where
  "service_answers h = Inr report_trend_strong_sell"

definition tuesday_noon :: datetime where
  "tuesday_noon = \<lparr>weekday = 1, hour = 12, minute = 0\<rparr>"

definition saturday_morning :: datetime where
  "saturday_morning = \<lparr>weekday = 5, hour = 10, minute = 0\<rparr>"

definition env_open :: env where
  "env_open = \<lparr>clock = tuesday_noon, get_analysis = service_answers, entropy = 0\<rparr>"

definition env_closed :: env where
  "env_closed = \<lparr>clock = saturday_morning, get_analysis = service_down, entropy = 0\<rparr>"

definition store_forex :: store where
  "store_forex = Map.empty(7 \<mapsto> \<lparr>pair = ''EUR/USD'', otc = False\<rparr>)"

definition store_otc :: store where
  "store_otc = Map.empty(7 \<mapsto> \<lparr>pair = ''EUR/USD OTC'', otc = True\<rparr>)"

section \<open>Evaluation and basic facts\<close>

declare replace.simps [simp del]

declare digits.simps [simp del]

lemmas eval_defs =
  coerce_to_buy_sell_def recommendation_def py_getattr_def py_get_def py_or_def
  truthy_def py_upper_def upper_def upper_char_def ma_tally_def py_values_def buy_cnt_def
  sell_cnt_def startswith_def py_str_def random_choice_def

lemma random_choice_mem: "xs \<noteq> [] \<Longrightarrow> random_choice r xs \<in> set xs"
  by (simp add: random_choice_def)

lemma random_choice_signal: "random_choice r [''BUY'', ''SELL''] \<in> {''BUY'', ''SELL''}"
  using random_choice_mem [of "[''BUY'', ''SELL'']" r] by simp

lemma ma_tally_signal: "ma_tally a = Inr (Some s) \<Longrightarrow> s \<in> {''BUY'', ''SELL''}"
  by (auto simp: ma_tally_def split: sum.splits if_splits)

lemma recommendation_text:
  "map_of kvs ''RECOMMENDATION'' = Some (PStr s) \<Longrightarrow>
   recommendation (Some (PDict kvs)) = Inr (PStr (upper s))"
  by (simp add: recommendation_def py_getattr_def py_get_def py_or_def truthy_def py_upper_def
      upper_def)

lemma recommendation_absent:
  "map_of kvs ''RECOMMENDATION'' = None \<Longrightarrow>
   recommendation (Some (PDict kvs)) = Inr (PStr [])"
  by (simp add: recommendation_def py_getattr_def py_get_def py_or_def truthy_def py_upper_def
      upper_def)

lemma OTC_not_FOREX: "p \<in> set OTC_PAIRS \<Longrightarrow> p \<notin> set FOREX_PAIRS"
  by (auto simp: OTC_PAIRS_def FOREX_PAIRS_def)

lemma TF_MAP_keys:
  "set (map fst TF_MAP) = set [''5s'', ''10s'', ''30s'', ''1m'', ''5m'', ''15m'', ''30m'', ''1h'']"
  by (simp add: TF_MAP_def)

lemma known_timeframes: "set (TIMEFRAMES_FOREX @ TIMEFRAMES_OTC) = set TIMEFRAMES_OTC"
  by (auto simp: TIMEFRAMES_FOREX_def TIMEFRAMES_OTC_def)

lemma symbol_eurusd:
  "tv_symbol_from_pair ''EUR/USD'' = ''EURUSD''" "tv_symbol_from_pair ''EUR/USD OTC'' = ''EURUSD''"
  by code_simp+

lemma pair_chosen_catalog:
  "p \<in> set (FOREX_PAIRS @ OTC_PAIRS) \<Longrightarrow>
   pair_chosen user_data uid p =
     (user_data(uid \<mapsto> \<lparr>pair = p, otc = (p \<in> set OTC_PAIRS)\<rparr>),
      [Reply (PairPrompt p)
         (Some (map (\<lambda>tf. [Label tf])
                  (if p \<in> set OTC_PAIRS then TIMEFRAMES_OTC else TIMEFRAMES_FOREX)
                @ [[ChangePair, Back]]))])"
  using OTC_not_FOREX [of p] by (auto simp: pair_chosen_def)

lemma timeframe_chosen_own_session:
  "snd (timeframe_chosen e (user_data(uid \<mapsto> sess)) uid tf) =
   snd (timeframe_chosen e (Map.empty(uid \<mapsto> sess)) uid tf)"
  by (simp add: timeframe_chosen_def Let_def split: sum.splits prod.splits)

lemma clock_read_iff:
  "tf \<in> set (TIMEFRAMES_FOREX @ TIMEFRAMES_OTC) \<Longrightarrow> user_data uid = Some sess \<Longrightarrow>
   ClockRead \<in> set (snd (timeframe_chosen e user_data uid tf)) \<longleftrightarrow> \<not> otc sess"
  unfolding timeframe_chosen_def Let_def
  by (auto split: sum.splits prod.splits)

section \<open>Properties of the coercion cascade\<close>

text \<open>
  Whenever \<^verbatim>\<open>coerce_to_buy_sell\<close> returns, it returns \<^verbatim>\<open>BUY\<close> or \<^verbatim>\<open>SELL\<close>, and it
  returns whenever the trend-following and the oscillator recommendation can be read: only
  those two reads are outside a \<^verbatim>\<open>try\<close> block.
\<close>

lemma coerce_result_is_signal:
  "coerce_to_buy_sell r a = Inr s \<Longrightarrow> s \<in> {''BUY'', ''SELL''}"
  using random_choice_signal [of r] ma_tally_signal [of a]
  unfolding coerce_to_buy_sell_def Let_def
  by (auto split: sum.splits if_splits option.splits)

lemma coerce_returns_when_fields_read:
  "recommendation (moving_averages a) = Inr m \<Longrightarrow> recommendation (oscillators a) = Inr c \<Longrightarrow>
   \<exists>s. coerce_to_buy_sell r a = Inr s"
  unfolding coerce_to_buy_sell_def Let_def
  by (auto split: sum.splits option.splits)

text \<open>
  Claim C1 says that \<^verbatim>\<open>coerce_to_buy_sell\<close> never raises, also on a report whose
  trend-following or oscillator recommendation is malformed. The code reads the overall
  recommendation inside \<^verbatim>\<open>try\<close>/\<^verbatim>\<open>except\<close> but the other two outside it: on a report whose
  overall recommendation is \<^verbatim>\<open>NEUTRAL\<close> and whose trend-following recommendation is the
  number 7, the call \<^verbatim>\<open>.upper()\<close> raises \<^verbatim>\<open>AttributeError\<close> and the exception leaves the
  function.
\<close>

theorem coerce_raises_on_malformed_trend:
  "coerce_to_buy_sell 0 report_malformed_trend = Inl AttributeError"
  by (simp add: eval_defs report_malformed_trend_def neutral_summary_def)

text \<open>
  Claim C3: the cascade is evaluated in priority order. An overall recommendation that reads
  as \<^verbatim>\<open>BUY\<close> or \<^verbatim>\<open>STRONG_BUY\<close> gives \<^verbatim>\<open>BUY\<close>, one that reads as \<^verbatim>\<open>SELL\<close> or
  \<^verbatim>\<open>STRONG_SELL\<close> gives \<^verbatim>\<open>SELL\<close>, whatever the other fields hold (they may be absent or
  malformed). When the overall recommendation is inconclusive (it reads as anything else, or
  reading it raises), a decisive trend-following recommendation gives the result, whatever
  the oscillator recommendation is.
\<close>

theorem coerce_priority_order:
  "(recommendation (summary a) \<in> {Inr (PStr ''BUY''), Inr (PStr ''STRONG_BUY'')} \<longrightarrow>
      coerce_to_buy_sell r a = Inr ''BUY'') \<and>
   (recommendation (summary a) \<in> {Inr (PStr ''SELL''), Inr (PStr ''STRONG_SELL'')} \<longrightarrow>
      coerce_to_buy_sell r a = Inr ''SELL'') \<and>
   (recommendation (summary a) \<notin>
        {Inr (PStr ''BUY''), Inr (PStr ''STRONG_BUY''), Inr (PStr ''SELL''), Inr (PStr ''STRONG_SELL'')} \<and>
    recommendation (moving_averages a) \<in> {Inr (PStr ''BUY''), Inr (PStr ''STRONG_BUY'')} \<longrightarrow>
      coerce_to_buy_sell r a = Inr ''BUY'') \<and>
   (recommendation (summary a) \<notin>
        {Inr (PStr ''BUY''), Inr (PStr ''STRONG_BUY''), Inr (PStr ''SELL''), Inr (PStr ''STRONG_SELL'')} \<and>
    recommendation (moving_averages a) \<in> {Inr (PStr ''SELL''), Inr (PStr ''STRONG_SELL'')} \<longrightarrow>
      coerce_to_buy_sell r a = Inr ''SELL'')"
  unfolding coerce_to_buy_sell_def Let_def
  by (auto split: sum.splits)

text \<open>
  The theorem at four reports: overall \<^verbatim>\<open>STRONG_BUY\<close> with oscillators \<^verbatim>\<open>SELL\<close>; overall
  \<^verbatim>\<open>SELL\<close> with trend \<^verbatim>\<open>BUY\<close>; no summary, trend \<^verbatim>\<open>buy\<close>, oscillators
  \<^verbatim>\<open>STRONG_SELL\<close>; overall \<^verbatim>\<open>NEUTRAL\<close>, trend \<^verbatim>\<open>STRONG_SELL\<close>, oscillators \<^verbatim>\<open>BUY\<close>.
\<close>

theorem coerce_priority_order_witness:
  "coerce_to_buy_sell 0 report_strong_buy = Inr ''BUY'' \<and>
   coerce_to_buy_sell 0 report_sell = Inr ''SELL'' \<and>
   coerce_to_buy_sell 0 report_trend_buy = Inr ''BUY'' \<and>
   coerce_to_buy_sell 0 report_trend_strong_sell = Inr ''SELL''"
proof -
  have 1: "recommendation (summary report_strong_buy) = Inr (PStr ''STRONG_BUY'')"
    by (simp add: eval_defs report_strong_buy_def)
  have 2: "recommendation (summary report_sell) = Inr (PStr ''SELL'')"
    by (simp add: eval_defs report_sell_def)
  have 3: "recommendation (summary report_trend_buy) = Inl AttributeError"
    "recommendation (moving_averages report_trend_buy) = Inr (PStr ''BUY'')"
    by code_simp+
  have 4: "recommendation (summary report_trend_strong_sell) = Inr (PStr ''NEUTRAL'')"
    "recommendation (moving_averages report_trend_strong_sell) = Inr (PStr ''STRONG_SELL'')"
    by (simp_all add: eval_defs report_trend_strong_sell_def neutral_summary_def)
  show ?thesis
    using coerce_priority_order [of report_strong_buy 0]
      coerce_priority_order [of report_sell 0]
      coerce_priority_order [of report_trend_buy 0]
      coerce_priority_order [of report_trend_strong_sell 0]
    by (simp add: 1 2 3 4)
qed

text \<open>
  When the three recommendations are read without an exception and none is decisive, the
  votes of the trend-following group decide: more \<^verbatim>\<open>BUY\<close> than \<^verbatim>\<open>SELL\<close> votes give
  \<^verbatim>\<open>BUY\<close>, more \<^verbatim>\<open>SELL\<close> than \<^verbatim>\<open>BUY\<close> votes give \<^verbatim>\<open>SELL\<close>.
\<close>

lemma tally_decides:
  assumes "recommendation (summary a) \<notin>
        {Inr (PStr ''BUY''), Inr (PStr ''STRONG_BUY''), Inr (PStr ''SELL''), Inr (PStr ''STRONG_SELL'')}"
    and "recommendation (moving_averages a) = Inr m"
    and "m \<notin> {PStr ''BUY'', PStr ''STRONG_BUY'', PStr ''SELL'', PStr ''STRONG_SELL''}"
    and "recommendation (oscillators a) = Inr c"
    and "c \<notin> {PStr ''BUY'', PStr ''STRONG_BUY'', PStr ''SELL'', PStr ''STRONG_SELL''}"
    and "moving_averages a = Some (PDict kvs)"
    and "map_of kvs ''COMPUTE'' = Some (PDict votes)"
  shows "(sell_cnt (map snd (AList.clearjunk votes)) < buy_cnt (map snd (AList.clearjunk votes)) \<longrightarrow>
            coerce_to_buy_sell r a = Inr ''BUY'') \<and>
         (buy_cnt (map snd (AList.clearjunk votes)) < sell_cnt (map snd (AList.clearjunk votes)) \<longrightarrow>
            coerce_to_buy_sell r a = Inr ''SELL'')"
  using assms
  unfolding coerce_to_buy_sell_def Let_def
  by (auto simp: ma_tally_def py_getattr_def py_get_def py_or_def truthy_def py_values_def
      split: sum.splits)

lemma tally_example: "coerce_to_buy_sell 0 report_neutral_votes = Inr ''BUY''"
  by (simp add: eval_defs report_neutral_votes_def neutral_summary_def votes_4_buy_2_sell_def)

text \<open>
  Claim C4 says that the votes are tallied for every report whose three recommendations are
  inconclusive, a malformed recommendation included. On a report whose overall and
  trend-following recommendations are \<^verbatim>\<open>NEUTRAL\<close>, whose votes are four \<^verbatim>\<open>BUY\<close> against two
  \<^verbatim>\<open>SELL\<close>, and whose oscillator recommendation is the number 1, the code raises
  \<^verbatim>\<open>AttributeError\<close> at the oscillator stage and never reaches the tally.
\<close>

theorem coerce_raises_before_tally:
  "coerce_to_buy_sell 0 report_malformed_oscillators = Inl AttributeError"
  by (simp add: eval_defs report_malformed_oscillators_def neutral_summary_def
      votes_4_buy_2_sell_def)

section \<open>Properties of the market clock\<close>

text \<open>
  The gate is closed exactly on Saturday and Sunday, from 22:45 to 22:59, and from 00:00
  to 01:59.
\<close>

lemma is_market_closed_iff:
  "is_market_closed now \<longleftrightarrow>
     weekday now = 5 \<or> weekday now = 6 \<or> (hour now = 22 \<and> 45 \<le> minute now) \<or> hour now < 2"
  by (auto simp: is_market_closed_def)

lemma is_market_closed_examples:
  "is_market_closed \<lparr>weekday = 5, hour = 10, minute = 0\<rparr> \<and>
   is_market_closed \<lparr>weekday = 2, hour = 1, minute = 30\<rparr> \<and>
   \<not> is_market_closed \<lparr>weekday = 1, hour = 22, minute = 44\<rparr> \<and>
   \<not> is_market_closed \<lparr>weekday = 2, hour = 2, minute = 0\<rparr>"
  by (simp add: is_market_closed_def)

text \<open>
  Claim C5 says, among other things, that the gate is closed on a Tuesday at 23:00, and the
  docstring of \<^verbatim>\<open>is_market_closed\<close> says that the market is closed from 22:45 to 02:00. The
  condition of the code tests \<^verbatim>\<open>hour == 22\<close> and \<^verbatim>\<open>0 <= hour < 2\<close> only, so the hour from
  23:00 to 23:59 is open: on a Tuesday at 23:00 the function returns \<^verbatim>\<open>False\<close>.
\<close>

theorem market_open_at_tuesday_23:
  "is_market_closed \<lparr>weekday = 1, hour = 23, minute = 0\<rparr> = False"
  by (simp add: is_market_closed_def)

section \<open>Properties of the handlers\<close>

text \<open>
  Claim C2 says that a timeframe outside the validity set of the session, such as
  \<^verbatim>\<open>5s\<close> for a session that is not OTC, is rejected before the analysis service is
  called. The code checks the label against the two lists together: a session holding
  \<^verbatim>\<open>EUR/USD\<close>, the label \<^verbatim>\<open>5s\<close> and an open market lead to a request to the service,
  at the one-minute interval.
\<close>

theorem forex_session_accepts_5s:
  "store_forex 7 = Some \<lparr>pair = ''EUR/USD'', otc = False\<rparr> \<and>
   ''5s'' \<notin> set TIMEFRAMES_FOREX \<and>
   \<not> is_market_closed (clock env_open) \<and>
   AdapterCall \<lparr>symbol = ''EURUSD'', screener = ''forex'', exchange = ''FX_IDC'',
                interval = INTERVAL_1_MINUTE\<rparr>
     \<in> set (snd (timeframe_chosen env_open store_forex 7 ''5s''))"
  by (auto simp: timeframe_chosen_def analyze_with_tradingview_def store_forex_def env_open_def
      tuesday_noon_def is_market_closed_def TIMEFRAMES_FOREX_def TIMEFRAMES_OTC_def TF_MAP_def
      symbol_eurusd Let_def split: sum.splits prod.splits)

text \<open>
  Claim C2 as amended: a label outside the union of the two timeframe lists changes nothing
  and produces no event, whatever the session is; a label inside the union is accepted
  whatever the OTC flag of the session is, and the analysis service is called for it when
  the session is OTC or the market is open.
\<close>

theorem timeframe_checked_against_known:
  "(tf \<notin> set (TIMEFRAMES_FOREX @ TIMEFRAMES_OTC) \<longrightarrow>
      timeframe_chosen e user_data uid tf = (user_data, [])) \<and>
   (tf \<in> set (TIMEFRAMES_FOREX @ TIMEFRAMES_OTC) \<and> user_data uid = Some sess \<and>
    (otc sess \<or> \<not> is_market_closed (clock e)) \<longrightarrow>
      AdapterCall \<lparr>symbol = tv_symbol_from_pair (pair sess), screener = ''forex'',
                   exchange = ''FX_IDC'',
                   interval = (case map_of TF_MAP tf of None \<Rightarrow> INTERVAL_5_MINUTES | Some i \<Rightarrow> i)\<rparr>
        \<in> set (snd (timeframe_chosen e user_data uid tf)))"
  unfolding timeframe_chosen_def analyze_with_tradingview_def Let_def
  by (auto split: sum.splits prod.splits)

text \<open>
  The theorem for a session that is not OTC, on a Tuesday at noon: the label \<^verbatim>\<open>2h\<close>
  is ignored, the label \<^verbatim>\<open>10s\<close> reaches the analysis service.
\<close>

theorem timeframe_checked_against_known_witness:
  "timeframe_chosen env_open store_forex 7 ''2h'' = (store_forex, []) \<and>
   AdapterCall \<lparr>symbol = ''EURUSD'', screener = ''forex'', exchange = ''FX_IDC'',
                interval = INTERVAL_1_MINUTE\<rparr>
     \<in> set (snd (timeframe_chosen env_open store_forex 7 ''10s''))"
proof -
  have c: "store_forex 7 = Some \<lparr>pair = ''EUR/USD'', otc = False\<rparr>"
    by (simp add: store_forex_def)
  have d: "\<not> is_market_closed (clock env_open)"
    by (simp add: env_open_def tuesday_noon_def is_market_closed_def)
  show ?thesis
    using timeframe_checked_against_known
        [where tf = "''2h''" and e = env_open and user_data = store_forex and uid = 7]
      timeframe_checked_against_known
        [where tf = "''10s''" and e = env_open and user_data = store_forex and uid = 7
           and sess = "\<lparr>pair = ''EUR/USD'', otc = False\<rparr>"]
      c d
    by (simp add: symbol_eurusd TF_MAP_def TIMEFRAMES_FOREX_def TIMEFRAMES_OTC_def)
qed

text \<open>
  Claim C6: for a session that holds an OTC instrument, a valid timeframe never makes the
  handler read the clock, and the analysis service is called whatever the clock says; the
  market-closed reply is only ever sent to a session that is not OTC.
\<close>

theorem otc_bypasses_clock:
  "(user_data uid = Some sess \<and> otc sess \<and> tf \<in> set TIMEFRAMES_OTC \<longrightarrow>
      ClockRead \<notin> set (snd (timeframe_chosen e user_data uid tf)) \<and>
      AdapterCall \<lparr>symbol = tv_symbol_from_pair (pair sess), screener = ''forex'',
                   exchange = ''FX_IDC'',
                   interval = (case map_of TF_MAP tf of None \<Rightarrow> INTERVAL_5_MINUTES | Some i \<Rightarrow> i)\<rparr>
        \<in> set (snd (timeframe_chosen e user_data uid tf))) \<and>
   (Reply MarketClosed kb \<in> set (snd (timeframe_chosen e user_data uid tf)) \<longrightarrow>
      (\<exists>sess. user_data uid = Some sess \<and> \<not> otc sess))"
  unfolding timeframe_chosen_def analyze_with_tradingview_def Let_def
  by (auto split: sum.splits prod.splits option.splits if_splits)

text \<open>
  The theorem on a Saturday morning, when the gate is closed: the OTC session gets its
  request to the analysis service without a clock read, the other session gets the
  market-closed reply.
\<close>

theorem otc_bypasses_clock_witness:
  "is_market_closed (clock env_closed) \<and>
   ClockRead \<notin> set (snd (timeframe_chosen env_closed store_otc 7 ''5s'')) \<and>
   AdapterCall \<lparr>symbol = ''EURUSD'', screener = ''forex'', exchange = ''FX_IDC'',
                interval = INTERVAL_1_MINUTE\<rparr>
     \<in> set (snd (timeframe_chosen env_closed store_otc 7 ''5s'')) \<and>
   Reply MarketClosed (Some [[OtcPairsButton, Back]])
     \<in> set (snd (timeframe_chosen env_closed store_forex 7 ''5m'')) \<and>
   store_forex 7 = Some \<lparr>pair = ''EUR/USD'', otc = False\<rparr>"
proof -
  have a: "store_otc 7 = Some \<lparr>pair = ''EUR/USD OTC'', otc = True\<rparr>"
    by (simp add: store_otc_def)
  have b: "''5s'' \<in> set TIMEFRAMES_OTC"
    by (simp add: TIMEFRAMES_OTC_def)
  have c: "is_market_closed (clock env_closed)"
    by (simp add: env_closed_def saturday_morning_def is_market_closed_def)
  have d: "Reply MarketClosed (Some [[OtcPairsButton, Back]])
     \<in> set (snd (timeframe_chosen env_closed store_forex 7 ''5m''))"
    by (simp add: timeframe_chosen_def store_forex_def env_closed_def saturday_morning_def
        is_market_closed_def TIMEFRAMES_FOREX_def TIMEFRAMES_OTC_def)
  show ?thesis
    using otc_bypasses_clock
        [where tf = "''5s''" and e = env_closed and user_data = store_otc and uid = 7
           and sess = "\<lparr>pair = ''EUR/USD OTC'', otc = True\<rparr>"]
      otc_bypasses_clock
        [where tf = "''5m''" and e = env_closed and user_data = store_forex and uid = 7
           and kb = "Some [[OtcPairsButton, Back]]"]
      a b c d
    by (auto simp: symbol_eurusd TF_MAP_def store_forex_def)
qed

text \<open>
  Claim C7: for a user without a session, a recognised timeframe label yields the reply
  that asks to select a pair first and nothing else; the analysis service is not called and
  the store is unchanged, so the user still has no session.
\<close>

theorem no_active_selection:
  "user_data uid = None \<Longrightarrow> tf \<in> set (TIMEFRAMES_FOREX @ TIMEFRAMES_OTC) \<Longrightarrow>
   timeframe_chosen e user_data uid tf = (user_data, [Reply NoSelection None]) \<and>
   (\<forall>h. AdapterCall h \<notin> set (snd (timeframe_chosen e user_data uid tf))) \<and>
   fst (timeframe_chosen e user_data uid tf) uid = None"
  by (simp add: timeframe_chosen_def)

text \<open>
  The theorem for user 8, who has no session in a store that holds one for user 7.
\<close>

theorem no_active_selection_witness:
  "store_forex 8 = None \<and>
   timeframe_chosen env_open store_forex 8 ''5m'' = (store_forex, [Reply NoSelection None]) \<and>
   fst (timeframe_chosen env_open store_forex 8 ''5m'') 8 = None"
proof -
  have a: "store_forex 8 = None"
    by (simp add: store_forex_def)
  have b: "''5m'' \<in> set (TIMEFRAMES_FOREX @ TIMEFRAMES_OTC)"
    by (simp add: TIMEFRAMES_FOREX_def)
  show ?thesis
    using no_active_selection
        [where user_data = store_forex and uid = 8 and tf = "''5m''" and e = env_open] a b
    by simp
qed

text \<open>
  Claim C8: selecting a catalog instrument succeeds from any store and overwrites the
  session of the user. After selecting \<open>A\<close> and then \<open>B\<close> the store maps the user to
  \<open>B\<close> with the OTC flag of \<open>B\<close> and is otherwise the store from before; a timeframe
  chosen next produces the events it produces for a session of \<open>B\<close> alone, and the clock
  is read exactly when \<open>B\<close> is not an OTC instrument.
\<close>

theorem select_last_write_wins:
  "A \<in> set (FOREX_PAIRS @ OTC_PAIRS) \<Longrightarrow> B \<in> set (FOREX_PAIRS @ OTC_PAIRS) \<Longrightarrow>
   pair_chosen user_data uid A =
     (user_data(uid \<mapsto> \<lparr>pair = A, otc = (A \<in> set OTC_PAIRS)\<rparr>),
      [Reply (PairPrompt A)
         (Some (map (\<lambda>tf. [Label tf])
                  (if A \<in> set OTC_PAIRS then TIMEFRAMES_OTC else TIMEFRAMES_FOREX)
                @ [[ChangePair, Back]]))]) \<and>
   pair_chosen (fst (pair_chosen user_data uid A)) uid B =
     (user_data(uid \<mapsto> \<lparr>pair = B, otc = (B \<in> set OTC_PAIRS)\<rparr>),
      [Reply (PairPrompt B)
         (Some (map (\<lambda>tf. [Label tf])
                  (if B \<in> set OTC_PAIRS then TIMEFRAMES_OTC else TIMEFRAMES_FOREX)
                @ [[ChangePair, Back]]))]) \<and>
   snd (timeframe_chosen e (fst (pair_chosen (fst (pair_chosen user_data uid A)) uid B)) uid tf) =
     snd (timeframe_chosen e (Map.empty(uid \<mapsto> \<lparr>pair = B, otc = (B \<in> set OTC_PAIRS)\<rparr>)) uid tf) \<and>
   (tf \<in> set (TIMEFRAMES_FOREX @ TIMEFRAMES_OTC) \<longrightarrow>
      (ClockRead \<in> set (snd (timeframe_chosen e
           (fst (pair_chosen (fst (pair_chosen user_data uid A)) uid B)) uid tf))
       \<longleftrightarrow> B \<notin> set OTC_PAIRS))"
proof -
  assume A: "A \<in> set (FOREX_PAIRS @ OTC_PAIRS)" and B: "B \<in> set (FOREX_PAIRS @ OTC_PAIRS)"
  let ?sB = "\<lparr>pair = B, otc = (B \<in> set OTC_PAIRS)\<rparr>"
  have 1: "pair_chosen user_data uid A =
     (user_data(uid \<mapsto> \<lparr>pair = A, otc = (A \<in> set OTC_PAIRS)\<rparr>),
      [Reply (PairPrompt A)
         (Some (map (\<lambda>tf. [Label tf])
                  (if A \<in> set OTC_PAIRS then TIMEFRAMES_OTC else TIMEFRAMES_FOREX)
                @ [[ChangePair, Back]]))])"
    by (rule pair_chosen_catalog [OF A])
  have 2: "pair_chosen (fst (pair_chosen user_data uid A)) uid B =
     (user_data(uid \<mapsto> ?sB),
      [Reply (PairPrompt B)
         (Some (map (\<lambda>tf. [Label tf])
                  (if B \<in> set OTC_PAIRS then TIMEFRAMES_OTC else TIMEFRAMES_FOREX)
                @ [[ChangePair, Back]]))])"
    by (simp add: 1 pair_chosen_catalog [OF B])
  have 3: "fst (pair_chosen (fst (pair_chosen user_data uid A)) uid B) = user_data(uid \<mapsto> ?sB)"
    by (simp add: 2)
  have 4: "snd (timeframe_chosen e (user_data(uid \<mapsto> ?sB)) uid tf) =
     snd (timeframe_chosen e (Map.empty(uid \<mapsto> ?sB)) uid tf)"
    by (rule timeframe_chosen_own_session)
  have 5: "tf \<in> set (TIMEFRAMES_FOREX @ TIMEFRAMES_OTC) \<longrightarrow>
      (ClockRead \<in> set (snd (timeframe_chosen e (user_data(uid \<mapsto> ?sB)) uid tf))
       \<longleftrightarrow> B \<notin> set OTC_PAIRS)"
    using clock_read_iff [where user_data = "user_data(uid \<mapsto> ?sB)" and uid = uid and sess = ?sB
        and tf = tf and e = e]
    by simp
  show ?thesis
    unfolding 3 using 1 2 4 5 unfolding 3 by blast
qed

text \<open>
  The theorem for a user who holds \<^verbatim>\<open>EUR/USD OTC\<close>, selects \<^verbatim>\<open>GBP/USD OTC\<close> and then
  \<^verbatim>\<open>USD/JPY\<close>: the session is \<^verbatim>\<open>USD/JPY\<close>, not OTC, and the clock is read.
\<close>

theorem select_last_write_wins_witness:
  "fst (pair_chosen (fst (pair_chosen store_otc 7 ''GBP/USD OTC'')) 7 ''USD/JPY'') 7
     = Some \<lparr>pair = ''USD/JPY'', otc = False\<rparr> \<and>
   ClockRead \<in> set (snd (timeframe_chosen env_open
       (fst (pair_chosen (fst (pair_chosen store_otc 7 ''GBP/USD OTC'')) 7 ''USD/JPY'')) 7 ''5m''))"
proof -
  have a: "''GBP/USD OTC'' \<in> set (FOREX_PAIRS @ OTC_PAIRS)"
    by (simp add: FOREX_PAIRS_def OTC_PAIRS_def)
  have b: "''USD/JPY'' \<in> set (FOREX_PAIRS @ OTC_PAIRS)"
    by (simp add: FOREX_PAIRS_def OTC_PAIRS_def)
  have c: "''USD/JPY'' \<notin> set OTC_PAIRS"
    by (simp add: FOREX_PAIRS_def OTC_PAIRS_def)
  have d: "''5m'' \<in> set (TIMEFRAMES_FOREX @ TIMEFRAMES_OTC)"
    by (simp add: TIMEFRAMES_FOREX_def)
  show ?thesis
    using select_last_write_wins
        [where A = "''GBP/USD OTC''" and B = "''USD/JPY''" and user_data = store_otc and uid = 7
           and e = env_open and tf = "''5m''", OF a b, THEN conjunct2] c d
    by auto
qed

text \<open>
  Claim C9: a selection whose text is in neither catalog is a no-op: the store is returned
  as it was and no reply is sent.
\<close>

theorem unknown_instrument_ignored:
  "text \<notin> set FOREX_PAIRS \<Longrightarrow> text \<notin> set OTC_PAIRS \<Longrightarrow>
   pair_chosen user_data uid text = (user_data, [])"
  by (simp add: pair_chosen_def)

text \<open>
  The theorem for the text \<^verbatim>\<open>XAU/USD\<close>, which is in neither catalog.
\<close>

theorem unknown_instrument_ignored_witness:
  "''XAU/USD'' \<notin> set FOREX_PAIRS \<and> ''XAU/USD'' \<notin> set OTC_PAIRS \<and>
   pair_chosen store_forex 7 ''XAU/USD'' = (store_forex, [])"
proof -
  have a: "''XAU/USD'' \<notin> set FOREX_PAIRS"
    by (simp add: FOREX_PAIRS_def)
  have b: "''XAU/USD'' \<notin> set OTC_PAIRS"
    by (simp add: FOREX_PAIRS_def OTC_PAIRS_def)
  show ?thesis
    using unknown_instrument_ignored [OF a b, of store_forex 7] a b by simp
qed

text \<open>
  Claim C10: for a timeframe that is not a key of \<^verbatim>\<open>TF_MAP\<close> the request to the analysis
  service is built with the five-minute interval, and for the keys \<^verbatim>\<open>5s\<close>, \<^verbatim>\<open>10s\<close> and
  \<^verbatim>\<open>30s\<close> with the one-minute interval. The request is the first component of the
  result, which exists for every timeframe: the lookup does not fail.
\<close>

theorem unknown_timeframe_defaults_to_5_minutes:
  "(timeframe \<notin> set (map fst TF_MAP) \<longrightarrow>
      interval (fst (analyze_with_tradingview e p timeframe is_otc)) = INTERVAL_5_MINUTES) \<and>
   (timeframe \<in> set [''5s'', ''10s'', ''30s''] \<longrightarrow>
      interval (fst (analyze_with_tradingview e p timeframe is_otc)) = INTERVAL_1_MINUTE)"
proof -
  have "timeframe \<notin> set (map fst TF_MAP) \<Longrightarrow> map_of TF_MAP timeframe = None"
    by (simp add: map_of_eq_None_iff)
  moreover have "timeframe \<in> set [''5s'', ''10s'', ''30s''] \<Longrightarrow>
      map_of TF_MAP timeframe = Some INTERVAL_1_MINUTE"
    by (auto simp: TF_MAP_def)
  ultimately show ?thesis
    by (auto simp: analyze_with_tradingview_def Let_def)
qed

text \<open>
  The theorem for the label \<^verbatim>\<open>2h\<close>, which is not a key, and for the key \<^verbatim>\<open>30s\<close>.
\<close>

theorem unknown_timeframe_defaults_to_5_minutes_witness:
  "interval (fst (analyze_with_tradingview env_open ''EUR/USD'' ''2h'' False)) = INTERVAL_5_MINUTES \<and>
   interval (fst (analyze_with_tradingview env_open ''EUR/USD OTC'' ''30s'' True)) = INTERVAL_1_MINUTE"
proof -
  have a: "''2h'' \<notin> set (map fst TF_MAP)"
    by (simp add: TF_MAP_def)
  have b: "''30s'' \<in> set [''5s'', ''10s'', ''30s'']"
    by simp
  show ?thesis
    using unknown_timeframe_defaults_to_5_minutes
        [where timeframe = "''2h''" and e = env_open and p = "''EUR/USD''" and is_otc = False]
      unknown_timeframe_defaults_to_5_minutes
        [where timeframe = "''30s''" and e = env_open and p = "''EUR/USD OTC''" and is_otc = True]
      a b
    by simp
qed

end
